theory Spec2Isabelle
  imports Complex_Main "HOL-Library.Word" "HOL-Library.Signed_Division" "HOL-Library.Log_Nat"
begin

section \<open>Strings\<close>

text \<open>
  A Go \<^verbatim>\<open>string\<close> is a sequence of bytes; it is modelled as \<^typ>\<open>string\<close>, a list of
  8-bit characters.  The functions of package \<^verbatim>\<open>strings\<close> that \<^verbatim>\<open>cookies.go\<close> calls are
  written after their definitions in the Go standard library.
\<close>

text \<open>\<^verbatim>\<open>HasPrefix(s, prefix)\<close>: \<^verbatim>\<open>len(s) >= len(prefix) && s[:len(prefix)] == prefix\<close>.\<close>

definition HasPrefix :: "string \<Rightarrow> string \<Rightarrow> bool" where
  "HasPrefix s pre = (length pre \<le> length s \<and> take (length pre) s = pre)"

text \<open>\<^verbatim>\<open>HasSuffix(s, suffix)\<close>:
  \<^verbatim>\<open>len(s) >= len(suffix) && s[len(s)-len(suffix):] == suffix\<close>.\<close>

definition HasSuffix :: "string \<Rightarrow> string \<Rightarrow> bool" where
  "HasSuffix s suf = (length suf \<le> length s \<and> drop (length s - length suf) s = suf)"

text \<open>\<^verbatim>\<open>TrimPrefix\<close> and \<^verbatim>\<open>TrimSuffix\<close> return \<^verbatim>\<open>s\<close> unchanged when it does not
  start (end) with the given string.\<close>

definition TrimPrefix :: "string \<Rightarrow> string \<Rightarrow> string" where
  "TrimPrefix s pre = (if HasPrefix s pre then drop (length pre) s else s)"

definition TrimSuffix :: "string \<Rightarrow> string \<Rightarrow> string" where
  "TrimSuffix s suf = (if HasSuffix s suf then take (length s - length suf) s else s)"

text \<open>\<^verbatim>\<open>Index(s, sep)\<close> is the position of the first instance of \<^verbatim>\<open>sep\<close> in \<^verbatim>\<open>s\<close>;
  Go's \<^verbatim>\<open>-1\<close> is \<^term>\<open>None\<close> here.\<close>

fun Index :: "string \<Rightarrow> string \<Rightarrow> nat option" where
  "Index [] sep = (if sep = [] then Some 0 else None)"
| "Index (c # cs) sep =
     (if HasPrefix (c # cs) sep then Some 0 else map_option Suc (Index cs sep))"

text \<open>\<^verbatim>\<open>Cut(s, sep)\<close> slices \<^verbatim>\<open>s\<close> around the first instance of \<^verbatim>\<open>sep\<close>:
  \<^verbatim>\<open>if i := Index(s, sep); i >= 0 { return s[:i], s[i+len(sep):], true }\<close>,
  \<^verbatim>\<open>return s, "", false\<close>.\<close>

definition Cut :: "string \<Rightarrow> string \<Rightarrow> string \<times> string \<times> bool" where
  "Cut s sep =
     (case Index s sep of
        Some i \<Rightarrow> (take i s, drop (i + length sep) s, True)
      | None \<Rightarrow> (s, [], False))"

section \<open>Errors\<close>

text \<open>
  Every \<^verbatim>\<open>fmt.Errorf\<close> of \<^verbatim>\<open>cookies.go\<close> is one constructor, carrying the value its
  message quotes; \<open>InvalidCookie\<close> carries the error of \<^verbatim>\<open>http.Cookie.Valid\<close>.
\<close>

datatype error =
    NotSchemaForm string        \<comment> \<open>\<^verbatim>\<open>%q is not in form ...://...\<close>\<close>
  | BadSchema string            \<comment> \<open>\<^verbatim>\<open>%q schema is not https or https?\<close>\<close>
  | NoPathSeparator string      \<comment> \<open>\<^verbatim>\<open>%q is not in form ...://.../...\<close>\<close>
  | ExplicitDomain string       \<comment> \<open>\<^verbatim>\<open>%q has explicit domain without **.\<close>\<close>
  | DoubleDotDomain             \<comment> \<open>\<^verbatim>\<open>domain should not have form **..example.com\<close>\<close>
  | PathNotWildcard string      \<comment> \<open>\<^verbatim>\<open>%q is not in form ...://.../...**\<close>\<close>
  | MutuallyExclusive           \<comment> \<open>\<^verbatim>\<open>Expires.After and Expires.At are mutually exclusive\<close>\<close>
  | NoExpiration                \<comment> \<open>\<^verbatim>\<open>At least one of WhenUAIsClosed, At, After, ...\<close>\<close>
  | SecurePrefix                \<comment> \<open>\<^verbatim>\<open>Cookies named __Secure-* must use schema https:\<close>\<close>
  | HostPrefix                  \<comment> \<open>\<^verbatim>\<open>Cookies named __Host-* must have ReturnTo ...\<close>\<close>
  | UnsupportedSource string    \<comment> \<open>\<^verbatim>\<open>unsupported ReturnOnNavigationFrom value %q\<close>\<close>
  | NoneNotSecure               \<comment> \<open>\<^verbatim>\<open>cookie with SameSite=None must be secure\<close>\<close>
  | InvalidCookie string        \<comment> \<open>the error returned by \<^verbatim>\<open>cookie.Valid()\<close>\<close>

section \<open>The scope parser\<close>

text \<open>
  \<^verbatim>\<open>parseReturnTo\<close> returns \<^verbatim>\<open>(retSecure, retDomain, retPath, error)\<close>; the model returns
  the error on the left and the triple on the right.  The branches stand in the order of
  the source.
\<close>

definition parseReturnTo :: "string \<Rightarrow> error + (bool \<times> string \<times> string)" where
  "parseReturnTo returnTo =
     (if returnTo = [] then Inr (True, [], ''/'') else
      (case Cut returnTo ''://'' of (schema, rest, ok) \<Rightarrow>
      if \<not> ok then Inl (NotSchemaForm returnTo) else
      (case (if schema = ''https'' then Some True
             else if schema = ''https?'' then Some False
             else None) of
        None \<Rightarrow> Inl (BadSchema returnTo)
      | Some secure \<Rightarrow>
      (case Cut rest ''/'' of (domain, path, ok) \<Rightarrow>
      if \<not> ok then Inl (NoPathSeparator returnTo) else
      (case (if domain = ''<current>'' then Inr []
             else if \<not> HasPrefix domain ''**.'' then Inl (ExplicitDomain returnTo)
             else let domain = TrimPrefix domain ''**.'' in
                  if HasPrefix domain ''.'' then Inl DoubleDotDomain else Inr domain) of
        Inl err \<Rightarrow> Inl err
      | Inr domain \<Rightarrow>
      if \<not> HasSuffix path ''**'' then Inl (PathNotWildcard returnTo) else
      let path = TrimSuffix path ''**'';
          path = (if path = [] then ''/'' else path)
      in Inr (secure, domain, path))))))"

section \<open>Time and durations\<close>

text \<open>
  Of a \<^verbatim>\<open>time.Time\<close> the code reads only \<^verbatim>\<open>IsZero()\<close>, which is
  \<^verbatim>\<open>t.sec() == 0 && t.nsec() == 0\<close>: the instant is kept as its seconds since
  January 1, year 1 00:00:00 UTC and the nanoseconds within that second.  The zero value
  \<^verbatim>\<open>time.Time{}\<close> is that instant.
\<close>

record Time =
  sec :: int
  nsec :: int

definition IsZero :: "Time \<Rightarrow> bool" where
  "IsZero t = (sec t = 0 \<and> nsec t = 0)"

definition zeroTime :: Time where
  "zeroTime = \<lparr>sec = 0, nsec = 0\<rparr>"

text \<open>A \<^verbatim>\<open>time.Duration\<close> is an \<^verbatim>\<open>int64\<close> count of nanoseconds.\<close>

type_synonym Duration = "64 word"

definition Second :: Duration where
  "Second = 1000000000"

definition Hour :: Duration where
  "Hour = 60 * (60 * Second)"

subsection \<open>\<^verbatim>\<open>float64\<close> arithmetic\<close>

text \<open>
  \<^verbatim>\<open>Duration.Seconds\<close> computes in \<^verbatim>\<open>float64\<close>.  A finite \<^verbatim>\<open>float64\<close> is a rational
  number, and every operation returns the exact result rounded to the nearest number with
  a 53-bit significand, ties to the even significand (IEEE 754 binary64, the only rounding
  mode of Go).  The exponent range is left unbounded: the magnitudes met here, between
  \<open>10\<^sup>-\<^sup>9\<close> and \<open>10\<^sup>1\<^sup>0\<close>, are far from overflow and from the subnormal numbers.
\<close>

definition round_half_even :: "rat \<Rightarrow> int" where
  "round_half_even x =
     (let n = \<lfloor>x\<rfloor>; r = x - of_int n
      in if r < 1 / 2 then n
         else if 1 / 2 < r then n + 1
         else if even n then n else n + 1)"

text \<open>The binary exponent \<open>e\<close> of \<open>x > 0\<close>: \<open>2\<^sup>e \<le> x < 2\<^sup>e\<^sup>+\<^sup>1\<close>.\<close>

definition binary_exponent :: "rat \<Rightarrow> int" where
  "binary_exponent x =
     (case quotient_of x of (p, q) \<Rightarrow>
        let e = bitlen p - bitlen q
        in if 2 powi e \<le> x then e else e - 1)"

definition float64_round :: "rat \<Rightarrow> rat" where
  "float64_round x =
     (if x = 0 then 0
      else let ulp = 2 powi (binary_exponent \<bar>x\<bar> - 52)
           in sgn x * (of_int (round_half_even (\<bar>x\<bar> / ulp)) * ulp))"

text \<open>The conversion \<^verbatim>\<open>int(f)\<close> discards the fraction (truncation towards zero).\<close>

definition float64_to_int :: "rat \<Rightarrow> int" where
  "float64_to_int f = (if 0 \<le> f then \<lfloor>f\<rfloor> else \<lceil>f\<rceil>)"

text \<open>
  \<^verbatim>\<open>func (d Duration) Seconds() float64\<close> is
  \<^verbatim>\<open>sec := d / Second; nsec := d % Second; return float64(sec) + float64(nsec)/1e9\<close>.
  Go's integer division and remainder truncate towards zero (\<open>sdiv\<close> and \<open>smod\<close>);
  with the divisor \<open>10\<^sup>9\<close> neither overflows, so they are taken on the signed values.
\<close>

definition Seconds :: "Duration \<Rightarrow> rat" where
  "Seconds d =
     (let sec = sint d sdiv sint Second; nsec = sint d smod sint Second
      in float64_round
           (float64_round (of_int sec)
            + float64_round (float64_round (of_int nsec) / 1000000000)))"

section \<open>Intents and cookies\<close>

text \<open>\<^verbatim>\<open>type Source string\<close> and its three named values.\<close>

type_synonym Source = string

definition SameSite :: Source where
  "SameSite = ''A->A''"

definition SameSiteOrAnySiteByUser :: Source where
  "SameSiteOrAnySiteByUser = ''A->A,*-(user)->A''"

definition AnySite :: Source where
  "AnySite = ''*->A''"

record Expiration =
  Session :: bool
  At :: Time
  After :: Duration

text \<open>The predefined value and the three constructors; a field that a Go composite
  literal leaves out has its zero value.\<close>

definition WhenUAIsClosed :: Expiration where
  "WhenUAIsClosed = \<lparr>Session = True, At = zeroTime, After = 0\<rparr>"

definition At_Expiration :: "Time \<Rightarrow> Expiration" where
  "At_Expiration t = \<lparr>Session = False, At = t, After = 0\<rparr>"

definition After_Expiration :: "Duration \<Rightarrow> Expiration" where
  "After_Expiration d = \<lparr>Session = False, At = zeroTime, After = d\<rparr>"

definition Immediately :: Expiration where
  "Immediately = \<lparr>Session = False, At = zeroTime, After = - Second\<rparr>"

record Intent =
  Name :: string
  Value :: string
  Expires :: Expiration
  ReturnTo :: string
  ReturnOnNavigationFrom :: Source
  RevealToJavaScript :: bool

text \<open>\<^verbatim>\<open>http.SameSite\<close> and the fields of \<^verbatim>\<open>http.Cookie\<close> that \<^verbatim>\<open>Compile\<close> sets (the
  others keep their zero values).  \<^verbatim>\<open>MaxAge\<close> is an \<^verbatim>\<open>int\<close>, 64 bits wide on the
  platforms considered, which holds every whole number of seconds of a \<^verbatim>\<open>Duration\<close>.\<close>

datatype http_SameSite =
  SameSiteDefaultMode | SameSiteLaxMode | SameSiteStrictMode | SameSiteNoneMode

record Cookie =
  Cookie_Name :: string
  Cookie_Value :: string
  Cookie_Domain :: string
  Cookie_Path :: string
  Cookie_Expires :: Time
  Cookie_MaxAge :: int
  Cookie_Secure :: bool
  Cookie_HttpOnly :: bool
  Cookie_SameSite :: http_SameSite

section \<open>The compiler\<close>

text \<open>
  The first \<^verbatim>\<open>switch\<close> of \<^verbatim>\<open>Compile\<close> (lines 123 to 133) sets \<^verbatim>\<open>expires\<close> and \<^verbatim>\<open>maxAge\<close>,
  which start as the zero time and \<open>0\<close>; its \<^verbatim>\<open>default\<close> case returns the error, here
  \<^term>\<open>None\<close>.
\<close>

definition resolveExpires :: "Expiration \<Rightarrow> (Time \<times> int) option" where
  "resolveExpires e =
     (if \<not> IsZero (At e) then Some (At e, 0)
      else if After e \<noteq> 0 then Some (zeroTime, float64_to_int (Seconds (After e)))
      else if Session e then Some (zeroTime, 0)
      else None)"

text \<open>The second \<^verbatim>\<open>switch\<close> (lines 142 to 152) maps the source of navigation to
  \<^verbatim>\<open>http.SameSite\<close>; its \<^verbatim>\<open>default\<close> case returns the error, here \<^term>\<open>None\<close>.\<close>

definition resolveSameSite :: "Source \<Rightarrow> http_SameSite option" where
  "resolveSameSite src =
     (if src = SameSite then Some SameSiteStrictMode
      else if src = SameSiteOrAnySiteByUser \<or> src = [] then Some SameSiteLaxMode
      else if src = AnySite then Some SameSiteNoneMode
      else None)"

text \<open>
  \<^verbatim>\<open>Compile\<close> ends with \<^verbatim>\<open>cookie.Valid()\<close> of package \<^verbatim>\<open>net/http\<close>, which is not part of
  this repository: it is the parameter \<open>Valid\<close>, returning the error if there is one.
  The steps stand in the order of the source.
\<close>

definition Compile :: "(Cookie \<Rightarrow> string option) \<Rightarrow> Intent \<Rightarrow> error + Cookie" where
  "Compile Valid i =
     (if After (Expires i) \<noteq> 0 \<and> \<not> IsZero (At (Expires i)) then Inl MutuallyExclusive else
      (case parseReturnTo (ReturnTo i) of
        Inl err \<Rightarrow> Inl err
      | Inr (secure, domain, path) \<Rightarrow>
      (case resolveExpires (Expires i) of
        None \<Rightarrow> Inl NoExpiration
      | Some (expires, maxAge) \<Rightarrow>
      if HasPrefix (Name i) ''__Secure-'' \<and> \<not> secure then Inl SecurePrefix else
      if HasPrefix (Name i) ''__Host-'' \<and> (\<not> secure \<or> domain \<noteq> [] \<or> path \<noteq> ''/'')
        then Inl HostPrefix else
      (case resolveSameSite (ReturnOnNavigationFrom i) of
        None \<Rightarrow> Inl (UnsupportedSource (ReturnOnNavigationFrom i))
      | Some sameSite \<Rightarrow>
      if \<not> secure \<and> sameSite = SameSiteNoneMode then Inl NoneNotSecure else
      let cookie = \<lparr>Cookie_Name = Name i, Cookie_Value = Value i, Cookie_Domain = domain,
                    Cookie_Path = path, Cookie_Expires = expires, Cookie_MaxAge = maxAge,
                    Cookie_Secure = secure, Cookie_HttpOnly = (\<not> RevealToJavaScript i),
                    Cookie_SameSite = sameSite\<rparr>
      in (case Valid cookie of
            Some err \<Rightarrow> Inl (InvalidCookie err)
          | None \<Rightarrow> Inr cookie)))))"

section \<open>Facts about strings and sources\<close>

lemma HasPrefix_iff: "HasPrefix s p \<longleftrightarrow> (\<exists>r. s = p @ r)"
proof
  assume "HasPrefix s p"
  then have "s = p @ drop (length p) s"
    by (metis HasPrefix_def append_take_drop_id)
  then show "\<exists>r. s = p @ r" ..
next
  assume "\<exists>r. s = p @ r"
  then show "HasPrefix s p" by (auto simp: HasPrefix_def)
qed

lemma host_not_secure: "HasPrefix n ''__Host-'' \<Longrightarrow> \<not> HasPrefix n ''__Secure-''"
  by (auto simp: HasPrefix_iff)

lemma sources_distinct:
  "SameSite \<noteq> AnySite" "SameSite \<noteq> SameSiteOrAnySiteByUser" "SameSite \<noteq> []"
  "AnySite \<noteq> SameSiteOrAnySiteByUser" "AnySite \<noteq> []" "SameSiteOrAnySiteByUser \<noteq> []"
  by (simp_all add: SameSite_def AnySite_def SameSiteOrAnySiteByUser_def)

lemma resolveSameSite_cases:
  "resolveSameSite SameSite = Some SameSiteStrictMode"
  "resolveSameSite SameSiteOrAnySiteByUser = Some SameSiteLaxMode"
  "resolveSameSite [] = Some SameSiteLaxMode"
  "resolveSameSite AnySite = Some SameSiteNoneMode"
  "src \<notin> {SameSite, SameSiteOrAnySiteByUser, [], AnySite} \<Longrightarrow> resolveSameSite src = None"
  by (simp_all add: resolveSameSite_def sources_distinct sources_distinct [symmetric])

lemma resolveSameSite_known:
  "src \<in> {SameSite, SameSiteOrAnySiteByUser, [], AnySite} \<Longrightarrow>
   resolveSameSite src =
     Some (if src = SameSite then SameSiteStrictMode
           else if src = AnySite then SameSiteNoneMode else SameSiteLaxMode)"
  by (auto simp add: resolveSameSite_cases sources_distinct sources_distinct [symmetric])

section \<open>The scope parser on the patterns of the tests\<close>

lemmas string_defs = HasPrefix_def HasSuffix_def TrimPrefix_def TrimSuffix_def Cut_def

lemma parse_empty: "parseReturnTo [] = Inr (True, [], ''/'')"
  by (simp add: parseReturnTo_def)

lemma parse_current_root: "parseReturnTo ''https://<current>/**'' = Inr (True, [], ''/'')"
  by (simp add: parseReturnTo_def string_defs)

lemma parse_current_foo: "parseReturnTo ''https://<current>/foo/**'' = Inr (True, [], ''foo/'')"
  by (simp add: parseReturnTo_def string_defs)

lemma parse_example_com:
  "parseReturnTo ''https://**.example.com/**'' = Inr (True, ''example.com'', ''/'')"
  by (simp add: parseReturnTo_def string_defs)

lemma parse_insecure_root: "parseReturnTo ''https?://<current>/**'' = Inr (False, [], ''/'')"
  by (simp add: parseReturnTo_def string_defs)

lemma parse_http:
  "parseReturnTo ''http://**.example.com/**'' = Inl (BadSchema ''http://**.example.com/**'')"
  by (simp add: parseReturnTo_def string_defs)

lemma parse_error_kinds:
  "parseReturnTo r = Inl e \<Longrightarrow>
   e \<in> {NotSchemaForm r, BadSchema r, NoPathSeparator r, ExplicitDomain r, DoubleDotDomain,
        PathNotWildcard r}"
  by (auto simp: parseReturnTo_def Let_def split: if_splits prod.splits option.splits sum.splits)

section \<open>The steps of the compiler\<close>

text \<open>Each lemma follows \<^verbatim>\<open>Compile\<close> down to one of its \<^verbatim>\<open>return\<close> statements.\<close>

lemma Compile_mutually_exclusive:
  "After (Expires i) \<noteq> 0 \<Longrightarrow> \<not> IsZero (At (Expires i)) \<Longrightarrow>
   Compile V i = Inl MutuallyExclusive"
  by (simp add: Compile_def)

lemma Compile_scope_error:
  "After (Expires i) = 0 \<or> IsZero (At (Expires i)) \<Longrightarrow>
   parseReturnTo (ReturnTo i) = Inl err \<Longrightarrow> Compile V i = Inl err"
  by (auto simp add: Compile_def)

lemma Compile_fails_unparsed:
  "parseReturnTo (ReturnTo i) = Inl err \<Longrightarrow> \<exists>e. Compile V i = Inl e"
  by (simp add: Compile_def)

lemma Compile_no_expiration:
  "After (Expires i) = 0 \<or> IsZero (At (Expires i)) \<Longrightarrow>
   parseReturnTo (ReturnTo i) = Inr t \<Longrightarrow>
   resolveExpires (Expires i) = None \<Longrightarrow> Compile V i = Inl NoExpiration"
  by (cases t) (auto simp add: Compile_def)

lemma Compile_secure_prefix:
  "After (Expires i) = 0 \<or> IsZero (At (Expires i)) \<Longrightarrow>
   parseReturnTo (ReturnTo i) = Inr (secure, domain, path) \<Longrightarrow>
   resolveExpires (Expires i) = Some tm \<Longrightarrow>
   HasPrefix (Name i) ''__Secure-'' \<Longrightarrow> \<not> secure \<Longrightarrow> Compile V i = Inl SecurePrefix"
  by (cases tm) (auto simp add: Compile_def)

lemma Compile_host_prefix:
  "After (Expires i) = 0 \<or> IsZero (At (Expires i)) \<Longrightarrow>
   parseReturnTo (ReturnTo i) = Inr (secure, domain, path) \<Longrightarrow>
   resolveExpires (Expires i) = Some tm \<Longrightarrow>
   HasPrefix (Name i) ''__Host-'' \<Longrightarrow> \<not> secure \<or> domain \<noteq> [] \<or> path \<noteq> ''/'' \<Longrightarrow>
   Compile V i = Inl HostPrefix"
  by (cases tm) (auto simp add: Compile_def host_not_secure)

lemma Compile_not_host_prefix:
  "parseReturnTo (ReturnTo i) = Inr (True, [], ''/'') \<Longrightarrow> Compile V i \<noteq> Inl HostPrefix"
  by (auto simp add: Compile_def Let_def split: option.splits if_splits)

lemma Compile_host_fails:
  "parseReturnTo (ReturnTo i) = Inr (secure, domain, path) \<Longrightarrow>
   HasPrefix (Name i) ''__Host-'' \<Longrightarrow> \<not> secure \<or> domain \<noteq> [] \<or> path \<noteq> ''/'' \<Longrightarrow>
   \<exists>e. Compile V i = Inl e"
  by (auto simp add: Compile_def split: option.splits)

lemma Compile_unsupported:
  "After (Expires i) = 0 \<or> IsZero (At (Expires i)) \<Longrightarrow>
   parseReturnTo (ReturnTo i) = Inr (secure, domain, path) \<Longrightarrow>
   resolveExpires (Expires i) = Some tm \<Longrightarrow>
   \<not> (HasPrefix (Name i) ''__Secure-'' \<and> \<not> secure) \<Longrightarrow>
   \<not> (HasPrefix (Name i) ''__Host-'' \<and> (\<not> secure \<or> domain \<noteq> [] \<or> path \<noteq> ''/'')) \<Longrightarrow>
   resolveSameSite (ReturnOnNavigationFrom i) = None \<Longrightarrow>
   Compile V i = Inl (UnsupportedSource (ReturnOnNavigationFrom i))"
  by (cases tm) (auto simp add: Compile_def)

lemma Compile_unsupported_fails:
  "resolveSameSite (ReturnOnNavigationFrom i) = None \<Longrightarrow> \<exists>e. Compile V i = Inl e"
  by (auto simp add: Compile_def split: option.splits sum.splits)

lemma Compile_none_not_secure:
  "After (Expires i) = 0 \<or> IsZero (At (Expires i)) \<Longrightarrow>
   parseReturnTo (ReturnTo i) = Inr (False, domain, path) \<Longrightarrow>
   resolveExpires (Expires i) = Some tm \<Longrightarrow>
   \<not> HasPrefix (Name i) ''__Secure-'' \<Longrightarrow> \<not> HasPrefix (Name i) ''__Host-'' \<Longrightarrow>
   resolveSameSite (ReturnOnNavigationFrom i) = Some SameSiteNoneMode \<Longrightarrow>
   Compile V i = Inl NoneNotSecure"
  by (cases tm) (auto simp add: Compile_def)

lemma Compile_insecure_none_fails:
  "parseReturnTo (ReturnTo i) = Inr (False, domain, path) \<Longrightarrow>
   resolveSameSite (ReturnOnNavigationFrom i) = Some SameSiteNoneMode \<Longrightarrow>
   \<exists>e. Compile V i = Inl e"
  by (auto simp add: Compile_def split: option.splits)

lemma Compile_success:
  "After (Expires i) = 0 \<or> IsZero (At (Expires i)) \<Longrightarrow>
   parseReturnTo (ReturnTo i) = Inr (secure, domain, path) \<Longrightarrow>
   resolveExpires (Expires i) = Some (expires, maxAge) \<Longrightarrow>
   \<not> (HasPrefix (Name i) ''__Secure-'' \<and> \<not> secure) \<Longrightarrow>
   \<not> (HasPrefix (Name i) ''__Host-'' \<and> (\<not> secure \<or> domain \<noteq> [] \<or> path \<noteq> ''/'')) \<Longrightarrow>
   resolveSameSite (ReturnOnNavigationFrom i) = Some sameSite \<Longrightarrow>
   \<not> (\<not> secure \<and> sameSite = SameSiteNoneMode) \<Longrightarrow>
   V \<lparr>Cookie_Name = Name i, Cookie_Value = Value i, Cookie_Domain = domain,
      Cookie_Path = path, Cookie_Expires = expires, Cookie_MaxAge = maxAge,
      Cookie_Secure = secure, Cookie_HttpOnly = (\<not> RevealToJavaScript i),
      Cookie_SameSite = sameSite\<rparr> = None \<Longrightarrow>
   Compile V i =
     Inr \<lparr>Cookie_Name = Name i, Cookie_Value = Value i, Cookie_Domain = domain,
          Cookie_Path = path, Cookie_Expires = expires, Cookie_MaxAge = maxAge,
          Cookie_Secure = secure, Cookie_HttpOnly = (\<not> RevealToJavaScript i),
          Cookie_SameSite = sameSite\<rparr>"
  by (auto simp add: Compile_def)

lemma Compile_result:
  "Compile V i = Inr c \<Longrightarrow>
   \<exists>secure domain path expires maxAge sameSite.
     parseReturnTo (ReturnTo i) = Inr (secure, domain, path) \<and>
     resolveExpires (Expires i) = Some (expires, maxAge) \<and>
     resolveSameSite (ReturnOnNavigationFrom i) = Some sameSite \<and>
     c = \<lparr>Cookie_Name = Name i, Cookie_Value = Value i, Cookie_Domain = domain,
          Cookie_Path = path, Cookie_Expires = expires, Cookie_MaxAge = maxAge,
          Cookie_Secure = secure, Cookie_HttpOnly = (\<not> RevealToJavaScript i),
          Cookie_SameSite = sameSite\<rparr>"
  by (auto simp add: Compile_def Let_def split: if_splits sum.splits option.splits prod.splits)

lemma Compile_error_kinds:
  "Compile V i = Inl e \<Longrightarrow>
   e = MutuallyExclusive \<and> After (Expires i) \<noteq> 0 \<and> \<not> IsZero (At (Expires i))
   \<or> parseReturnTo (ReturnTo i) = Inl e
   \<or> e = NoExpiration \<and> resolveExpires (Expires i) = None
   \<or> e \<in> {SecurePrefix, HostPrefix, UnsupportedSource (ReturnOnNavigationFrom i),
           NoneNotSecure}
   \<or> (\<exists>err. e = InvalidCookie err)"
  by (auto simp add: Compile_def Let_def split: if_splits sum.splits option.splits prod.splits)

section \<open>Whole seconds of a duration\<close>

lemma sint_Second: "sint Second = 1000000000"
  by (simp add: Second_def)

lemma hours_nonzero: "24 * Hour \<noteq> 0"
  by (simp add: Hour_def Second_def)

lemma seconds_24h: "float64_to_int (Seconds (24 * Hour)) = 86400"
  by code_simp

lemma sdiv_nonpos: "k < 0 \<Longrightarrow> 0 < l \<Longrightarrow> (k::int) sdiv l \<le> 0"
  by (simp add: signed_divide_int_def mult_le_0_iff pos_imp_zdiv_nonneg_iff)

lemma smod_nonpos: "k < 0 \<Longrightarrow> 0 < l \<Longrightarrow> (k::int) smod l \<le> 0"
  by (simp add: signed_modulo_int_def mult_le_0_iff)

lemma round_half_even_nonneg: "0 \<le> x \<Longrightarrow> 0 \<le> round_half_even x"
  by (auto simp: round_half_even_def Let_def)

lemma float64_round_minus: "float64_round (- x) = - float64_round x"
  by (simp add: float64_round_def Let_def)

lemma float64_round_nonneg: "0 \<le> x \<Longrightarrow> 0 \<le> float64_round x"
  by (auto simp: float64_round_def Let_def round_half_even_nonneg intro!: mult_nonneg_nonneg)

lemma float64_round_nonpos: "x \<le> 0 \<Longrightarrow> float64_round x \<le> 0"
  using float64_round_nonneg [of "- x"] by (simp add: float64_round_minus)

lemma float64_to_int_nonpos: "f \<le> 0 \<Longrightarrow> float64_to_int f \<le> 0"
  by (auto simp: float64_to_int_def)

lemma Seconds_nonpos:
  assumes "sint d < 0"
  shows "Seconds d \<le> 0"
proof -
  let ?s = "sint d sdiv sint Second" and ?n = "sint d smod sint Second"
  have s: "?s \<le> 0" and n: "?n \<le> 0"
    using assms by (simp_all add: sdiv_nonpos smod_nonpos sint_Second)
  have "float64_round (of_int ?s) \<le> 0"
    using s by (intro float64_round_nonpos) simp
  moreover have "float64_round (of_int ?n) \<le> 0"
    using n by (intro float64_round_nonpos) simp
  then have "float64_round (float64_round (of_int ?n) / 1000000000) \<le> 0"
    by (intro float64_round_nonpos) (simp add: divide_nonpos_pos)
  ultimately show ?thesis
    unfolding Seconds_def Let_def by (intro float64_round_nonpos) simp
qed

lemma negative_resolves:
  assumes "sint (After e) < 0" "IsZero (At e)"
  shows "resolveExpires e = Some (zeroTime, float64_to_int (Seconds (After e)))"
    and "float64_to_int (Seconds (After e)) \<le> 0"
proof -
  from assms(1) have "After e \<noteq> 0" by auto
  with assms(2) show "resolveExpires e = Some (zeroTime, float64_to_int (Seconds (After e)))"
    by (simp add: resolveExpires_def)
  show "float64_to_int (Seconds (After e)) \<le> 0"
    using assms(1) by (intro float64_to_int_nonpos Seconds_nonpos)
qed

subsection \<open>Rounding to a multiple of the unit in the last place\<close>

text \<open>
  \<^verbatim>\<open>int(d.Seconds())\<close> is the number of whole seconds of \<open>d\<close> as long as the sum
  \<^verbatim>\<open>float64(sec) + float64(nsec)/1e9\<close> is not rounded up to the next integer, which is so
  for every duration shorter than \<open>2\<^sup>2\<^sup>4\<close> seconds.
\<close>

lemma round_half_even_le: "x \<le> of_int m \<Longrightarrow> round_half_even x \<le> m"
  unfolding round_half_even_def Let_def
  by (auto simp: floor_le_iff)

lemma round_half_even_ge:
  assumes "of_int m \<le> x"
  shows "m \<le> round_half_even x"
proof -
  have "m \<le> \<lfloor>x\<rfloor>" using assms by (simp add: le_floor_iff)
  then show ?thesis unfolding round_half_even_def Let_def by auto
qed

lemma round_half_even_below_half:
  "x < of_int m - 1 / 2 \<Longrightarrow> round_half_even x \<le> m - 1"
  unfolding round_half_even_def Let_def
  by (auto simp: floor_le_iff) linarith+

lemma bitlen_powi:
  assumes "0 < p"
  shows "(2::rat) powi (bitlen p - 1) \<le> of_int p" and "of_int p < (2::rat) powi bitlen p"
proof -
  from assms have b: "1 \<le> bitlen p" by (auto simp: bitlen_alt_def)
  from bitlen_bounds [OF assms]
  have lo: "2 ^ nat (bitlen p - 1) \<le> p" and hi: "p < 2 ^ nat (bitlen p)" by auto
  from lo have "(of_int (2 ^ nat (bitlen p - 1)) :: rat) \<le> of_int p"
    by (simp only: of_int_le_iff)
  then show "(2::rat) powi (bitlen p - 1) \<le> of_int p"
    using b by (simp add: power_int_nonneg_exp)
  from hi have "(of_int p :: rat) < of_int (2 ^ nat (bitlen p))"
    by (simp only: of_int_less_iff)
  then show "of_int p < (2::rat) powi bitlen p"
    using b by (simp add: power_int_nonneg_exp)
qed

lemma binary_exponent_bounds:
  assumes "0 < x"
  shows "2 powi binary_exponent x \<le> x" and "x < 2 powi (binary_exponent x + 1)"
proof -
  obtain p q where pq: "quotient_of x = (p, q)" by (cases "quotient_of x")
  then have q: "0 < q" and x: "x = of_int p / of_int q"
    by (simp_all add: quotient_of_denom_pos quotient_of_div)
  with assms have p: "0 < p" by (simp add: zero_less_divide_iff)
  let ?e = "bitlen p - bitlen q"
  note P = bitlen_powi [OF p] and Q = bitlen_powi [OF q]
  have qr: "(0::rat) < of_int q" using q by simp
  have up: "x < 2 powi (?e + 1)"
  proof -
    have "of_int p < (2::rat) powi (?e + 1) * 2 powi (bitlen q - 1)"
      using P(2) by (simp add: power_int_add [symmetric])
    also have "\<dots> \<le> 2 powi (?e + 1) * of_int q"
      using Q(1) by (intro mult_left_mono) simp_all
    finally show ?thesis using qr by (simp add: x pos_divide_less_eq)
  qed
  have down: "2 powi (?e - 1) \<le> x"
  proof -
    have "(2::rat) powi (?e - 1) * of_int q \<le> 2 powi (?e - 1) * 2 powi bitlen q"
      using Q(2) by (intro mult_left_mono) simp_all
    also have "\<dots> = 2 powi (bitlen p - 1)"
      by (simp add: power_int_add [symmetric])
    also have "\<dots> \<le> of_int p" by (rule P(1))
    finally show ?thesis using qr by (simp add: x pos_le_divide_eq)
  qed
  show "2 powi binary_exponent x \<le> x"
    using down by (simp add: binary_exponent_def pq Let_def)
  show "x < 2 powi (binary_exponent x + 1)"
    using up by (auto simp add: binary_exponent_def pq Let_def not_le)
qed

lemma binary_exponent_less:
  assumes "0 < x" and "x < 2 powi k"
  shows "binary_exponent x < k"
proof (rule ccontr)
  assume "\<not> binary_exponent x < k"
  then have "(2::rat) powi k \<le> 2 powi binary_exponent x"
    by (intro power_int_increasing) simp_all
  with binary_exponent_bounds(1) [OF assms(1)] assms(2) show False by simp
qed


lemma float64_round_pos:
  "0 < x \<Longrightarrow>
   float64_round x =
     of_int (round_half_even (x / 2 powi (binary_exponent x - 52)))
       * 2 powi (binary_exponent x - 52)"
  by (simp add: float64_round_def Let_def)

lemma float64_round_le:
  assumes "0 < x" and "x \<le> of_int m * 2 powi (binary_exponent x - 52)"
  shows "float64_round x \<le> of_int m * 2 powi (binary_exponent x - 52)"
proof -
  let ?u = "(2::rat) powi (binary_exponent x - 52)"
  have u: "0 < ?u" by simp
  from assms(2) have "x / ?u \<le> of_int m"
    using u by (simp add: pos_divide_le_eq)
  then have "round_half_even (x / ?u) \<le> m" by (rule round_half_even_le)
  then have "(of_int (round_half_even (x / ?u)) :: rat) \<le> of_int m" by simp
  then show ?thesis
    using u by (simp add: float64_round_pos [OF assms(1)])
qed

lemma float64_round_ge:
  assumes "0 < x" and "of_int m * 2 powi (binary_exponent x - 52) \<le> x"
  shows "of_int m * 2 powi (binary_exponent x - 52) \<le> float64_round x"
proof -
  let ?u = "(2::rat) powi (binary_exponent x - 52)"
  have u: "0 < ?u" by simp
  from assms(2) have "of_int m \<le> x / ?u"
    using u by (simp add: pos_le_divide_eq)
  then have "m \<le> round_half_even (x / ?u)" by (rule round_half_even_ge)
  then have "(of_int m :: rat) \<le> of_int (round_half_even (x / ?u))" by simp
  then show ?thesis
    using u by (simp add: float64_round_pos [OF assms(1)])
qed

lemma float64_round_below_half:
  assumes "0 < x" and "x < (of_int m - 1 / 2) * 2 powi (binary_exponent x - 52)"
  shows "float64_round x \<le> (of_int m - 1) * 2 powi (binary_exponent x - 52)"
proof -
  let ?u = "(2::rat) powi (binary_exponent x - 52)"
  have u: "0 < ?u" by simp
  from assms(2) have "x / ?u < of_int m - 1 / 2"
    using u by (simp add: pos_divide_less_eq)
  then have "round_half_even (x / ?u) \<le> m - 1" by (rule round_half_even_below_half)
  then have "(of_int (round_half_even (x / ?u)) :: rat) \<le> of_int (m - 1)"
    by (simp only: of_int_le_iff)
  then show ?thesis
    using u by (simp add: float64_round_pos [OF assms(1)])
qed

text \<open>A rational that is a multiple of \<open>2\<^sup>j\<close> is a multiple of every \<open>2\<^sup>k\<close> with \<open>k \<le> j\<close>.\<close>

lemma multiple_of_ulp:
  assumes "k \<le> j"
  shows "of_int a * (2::rat) powi j = of_int (a * 2 ^ nat (j - k)) * 2 powi k"
proof -
  have "(2::rat) powi j = 2 powi (j - k) * 2 powi k"
    by (simp add: power_int_add [symmetric])
  also have "(2::rat) powi (j - k) = of_int (2 ^ nat (j - k))"
    using assms by (simp add: power_int_nonneg_exp)
  finally show ?thesis by simp
qed

lemma float64_round_of_int:
  assumes "0 \<le> k" and "k < 2 ^ 53"
  shows "float64_round (of_int k) = of_int k"
proof (cases "k = 0")
  case True
  then show ?thesis by (simp add: float64_round_def)
next
  case False
  with assms have pos: "(0::rat) < of_int k" by simp
  let ?e = "binary_exponent (of_int k) - 52"
  have "(of_int k :: rat) < of_int (2 ^ 53)"
    using assms(2) by (simp only: of_int_less_iff)
  then have "(of_int k :: rat) < 2 powi 53" by simp
  then have "binary_exponent (of_int k) < 53"
    by (rule binary_exponent_less [OF pos])
  then have "?e \<le> 0" by simp
  define M :: int where "M = k * 2 ^ nat (0 - ?e)"
  have "of_int k * (2::rat) powi 0 = of_int M * 2 powi ?e"
    unfolding M_def using \<open>?e \<le> 0\<close> by (rule multiple_of_ulp)
  then have eq: "(of_int k :: rat) = of_int M * 2 powi ?e"
    by (simp only: power_int_0_right mult_1_right)
  have "float64_round (of_int k) \<le> of_int M * 2 powi ?e"
    by (rule float64_round_le [OF pos]) (rule eq [THEN eq_refl])
  moreover have "of_int M * 2 powi ?e \<le> float64_round (of_int k)"
    by (rule float64_round_ge [OF pos]) (rule eq [symmetric, THEN eq_refl])
  ultimately have "float64_round (of_int k) = of_int M * 2 powi ?e" by (rule antisym)
  also note eq [symmetric]
  finally show ?thesis .
qed


text \<open>The quotient \<^verbatim>\<open>float64(nsec)/1e9\<close> stays at or below \<open>1 - 2\<^sup>-\<^sup>3\<^sup>0 - 2\<^sup>-\<^sup>5\<^sup>3\<close>.\<close>

lemma fraction_bounds:
  assumes "0 \<le> n" and "n < 1000000000"
  shows "0 \<le> float64_round (of_int n / 1000000000)"
    and "float64_round (of_int n / 1000000000) \<le> of_int 9007199246352383 * 2 powi (- 53)"
proof -
  let ?x = "of_int n / 1000000000 :: rat"
  have nonneg: "0 \<le> ?x" using assms(1) by simp
  then show "0 \<le> float64_round ?x" by (rule float64_round_nonneg)
  show "float64_round ?x \<le> of_int 9007199246352383 * 2 powi (- 53)"
  proof (cases "n = 0")
    case True
    then show ?thesis by (simp add: float64_round_def)
  next
    case False
    with assms have pos: "0 < ?x" by simp
    let ?e = "binary_exponent ?x - 52"
    have "(of_int n :: rat) \<le> of_int 999999999"
      using assms(2) by (simp only: of_int_le_iff)
    then have x: "?x \<le> 999999999 / 1000000000" by simp
    then have "?x < 2 powi 0" by simp
    then have "binary_exponent ?x < 0" by (rule binary_exponent_less [OF pos])
    then have "?e \<le> - 53" by simp
    define M :: int where "M = 9007199246352383 * 2 ^ nat (- 53 - ?e)"
    have eq: "of_int 9007199246352383 * (2::rat) powi (- 53) = of_int M * 2 powi ?e"
      unfolding M_def using \<open>?e \<le> - 53\<close> by (rule multiple_of_ulp)
    have "?x \<le> of_int 9007199246352383 * 2 powi (- 53)"
      using x by (simp add: power_int_minus)
    then have "?x \<le> of_int M * 2 powi ?e" by (simp only: eq)
    then have "float64_round ?x \<le> of_int M * 2 powi ?e"
      by (rule float64_round_le [OF pos])
    then show ?thesis by (simp only: eq)
  qed
qed


lemma whole_seconds_nonneg:
  assumes "0 \<le> s" and "s < 2 ^ 24" and "0 \<le> n" and "n < 1000000000"
  shows "0 \<le> float64_round (float64_round (of_int s)
           + float64_round (float64_round (of_int n) / 1000000000))"
    and "\<lfloor>float64_round (float64_round (of_int s)
           + float64_round (float64_round (of_int n) / 1000000000))\<rfloor> = s"
proof -
  let ?f = "float64_round (of_int n / 1000000000)"
  let ?y = "of_int s + ?f"
  have rs: "float64_round (of_int s) = of_int s"
    using assms(1,2) by (intro float64_round_of_int) simp_all
  have rn: "float64_round (of_int n) = of_int n"
    using assms(3,4) by (intro float64_round_of_int) simp_all
  note f = fraction_bounds [OF assms(3,4)]
  have y0: "0 \<le> ?y" using assms(1) f(1) by simp
  then have z0: "0 \<le> float64_round ?y" by (rule float64_round_nonneg)
  then show "0 \<le> float64_round (float64_round (of_int s)
           + float64_round (float64_round (of_int n) / 1000000000))"
    by (simp only: rs rn)
  have "\<lfloor>float64_round ?y\<rfloor> = s"
  proof (cases "?y = 0")
    case True
    with assms(1) f(1) have "s = 0" by simp
    with True show ?thesis by (simp add: float64_round_def)
  next
    case False
    with y0 have pos: "0 < ?y" by simp
    let ?e = "binary_exponent ?y - 52"
    let ?u = "(2::rat) powi ?e"
    have sr: "(of_int s :: rat) \<le> of_int (2 ^ 24 - 1)"
      using assms(2) by (simp only: of_int_le_iff)
    have B: "of_int 9007199246352383 * (2::rat) powi (- 53) < 1 - 2 powi (- 30)"
      by (simp add: power_int_minus)
    from sr f(2) B have "?y < 2 powi 24" by simp
    then have "binary_exponent ?y < 24" by (rule binary_exponent_less [OF pos])
    then have e: "?e \<le> - 29" by simp
    then have e0: "?e \<le> 0" by simp
    have u: "?u \<le> 2 powi (- 29)"
      using e by (intro power_int_increasing) simp_all
    define L :: int where "L = s * 2 ^ nat (0 - ?e)"
    define M :: int where "M = (s + 1) * 2 ^ nat (0 - ?e)"
    have "of_int s * (2::rat) powi 0 = of_int L * ?u"
      unfolding L_def using e0 by (rule multiple_of_ulp)
    then have L: "of_int L * ?u = of_int s"
      by (simp only: power_int_0_right mult_1_right)
    have "of_int (s + 1) * (2::rat) powi 0 = of_int M * ?u"
      unfolding M_def using e0 by (rule multiple_of_ulp)
    then have M: "of_int M * ?u = of_int s + 1"
      by (simp only: power_int_0_right mult_1_right of_int_add of_int_1)
    have "of_int L * ?u \<le> ?y" using f(1) by (simp only: L)
    then have "of_int L * ?u \<le> float64_round ?y" by (rule float64_round_ge [OF pos])
    then have lower: "of_int s \<le> float64_round ?y" by (simp only: L)
    have half: "(of_int M - 1 / 2) * ?u = of_int s + 1 - ?u / 2"
      using M by (simp add: algebra_simps)
    have "?u / 2 \<le> 2 powi (- 30)" using u by (simp add: power_int_minus)
    with f(2) B have "?y < of_int s + 1 - ?u / 2" by simp
    then have "?y < (of_int M - 1 / 2) * ?u" by (simp only: half)
    then have "float64_round ?y \<le> (of_int M - 1) * ?u"
      by (rule float64_round_below_half [OF pos])
    also have "(of_int M - 1) * ?u = of_int s + 1 - ?u"
      using M by (simp add: algebra_simps)
    also have "\<dots> < of_int s + 1" by simp
    finally have upper: "float64_round ?y < of_int s + 1" .
    from lower upper show ?thesis by (rule floor_unique)
  qed
  then show "\<lfloor>float64_round (float64_round (of_int s)
           + float64_round (float64_round (of_int n) / 1000000000))\<rfloor> = s"
    by (simp only: rs rn)
qed


lemma float64_to_int_minus: "float64_to_int (- z) = - float64_to_int z"
  by (auto simp: float64_to_int_def ceiling_minus floor_minus)

lemma float64_round_minus_diff: "float64_round (- a - b) = - float64_round (a + b)"
  using float64_round_minus [of "a + b"] by simp

lemma Seconds_minus:
  assumes "sint d' = - sint d"
  shows "Seconds d' = - Seconds d"
proof -
  have "sint d' sdiv sint Second = - (sint d sdiv sint Second)"
    and "sint d' smod sint Second = - (sint d smod sint Second)"
    by (simp_all add: assms signed_divide_int_def signed_modulo_int_def sgn_minus)
  then show ?thesis
    by (simp add: Seconds_def Let_def float64_round_minus float64_round_minus_diff)
qed

lemma whole_seconds_of_nonneg:
  assumes "0 \<le> sint d" and "sint d < 2 ^ 24 * 1000000000"
  shows "float64_to_int (Seconds d) = sint d sdiv 1000000000"
proof -
  let ?s = "sint d div 1000000000" and ?n = "sint d mod 1000000000"
  have sd: "sint d sdiv sint Second = ?s" and sm: "sint d smod sint Second = ?n"
    using assms(1)
    by (auto simp add: sint_Second signed_divide_int_def signed_modulo_int_def sgn_if)
  have s: "0 \<le> ?s" "?s < 2 ^ 24" and n: "0 \<le> ?n" "?n < 1000000000"
    using assms by simp_all
  from whole_seconds_nonneg [OF s n] sd sm
  have "0 \<le> Seconds d" and "\<lfloor>Seconds d\<rfloor> = ?s"
    by (simp_all add: Seconds_def Let_def)
  then have "float64_to_int (Seconds d) = ?s"
    by (simp add: float64_to_int_def)
  with sd show ?thesis by (simp add: sint_Second)
qed


lemma whole_seconds:
  assumes "- (2 ^ 24 * 1000000000) < sint d" and "sint d < 2 ^ 24 * 1000000000"
  shows "float64_to_int (Seconds d) = sint d sdiv 1000000000"
proof (cases "0 \<le> sint d")
  case True
  then show ?thesis using assms(2) by (rule whole_seconds_of_nonneg)
next
  case False
  let ?d' = "- d"
  have "signed_take_bit 63 (- sint d) = - sint d"
    using False assms(1) by (intro signed_take_bit_int_eq_self) simp_all
  then have neg: "sint ?d' = - sint d"
    by (simp add: sint_word_minus)
  then have "0 \<le> sint ?d'" and "sint ?d' < 2 ^ 24 * 1000000000"
    using False assms(1) by simp_all
  then have "float64_to_int (Seconds ?d') = sint ?d' sdiv 1000000000"
    by (rule whole_seconds_of_nonneg)
  moreover have "Seconds d = - Seconds ?d'"
    using neg by (intro Seconds_minus) simp
  ultimately show ?thesis
    by (simp add: float64_to_int_minus neg signed_divide_int_def sgn_minus)
qed

section \<open>Compiling the intents of the tests\<close>

lemma Compile_at_cookie:
  "Compile (\<lambda>c. None)
     \<lparr>Name = ''test'', Value = ''value'',
      Expires = At_Expiration \<lparr>sec = 63713433600, nsec = 0\<rparr>,
      ReturnTo = [], ReturnOnNavigationFrom = [], RevealToJavaScript = False\<rparr>
   = Inr \<lparr>Cookie_Name = ''test'', Cookie_Value = ''value'', Cookie_Domain = [],
          Cookie_Path = ''/'', Cookie_Expires = \<lparr>sec = 63713433600, nsec = 0\<rparr>,
          Cookie_MaxAge = 0, Cookie_Secure = True, Cookie_HttpOnly = True,
          Cookie_SameSite = SameSiteLaxMode\<rparr>"
  by (simp add: Compile_def parse_empty resolveExpires_def At_Expiration_def IsZero_def
      resolveSameSite_def SameSite_def HasPrefix_def)

section \<open>The scope triple\<close>

text \<open>
  Claim C1 says that the path prefix of every accepted pattern begins with \<^verbatim>\<open>/\<close>.
  \<^verbatim>\<open>strings.Cut(rest, "/")\<close> drops the separator, and only the empty prefix is set back to
  \<^verbatim>\<open>/\<close>: for \<^verbatim>\<open>https://<current>/foo/**\<close>, the pattern the claim names, the parser
  returns the path prefix \<^verbatim>\<open>foo/\<close>, which does not begin with \<^verbatim>\<open>/\<close>.
\<close>

theorem nonroot_path_lacks_slash:
  "parseReturnTo ''https://<current>/foo/**'' = Inr (True, [], ''foo/'')
   \<and> \<not> HasPrefix ''foo/'' ''/''"
  by (simp add: parse_current_foo HasPrefix_def)

text \<open>
  Claim C3 as worded (no accepted pattern yields a domain suffix with an empty label, such
  as one containing \<^verbatim>\<open>..\<close>) fails: the parser accepts \<^verbatim>\<open>https://**.a..b/**\<close> and returns
  the suffix \<^verbatim>\<open>a..b\<close>.
\<close>

theorem empty_label_counterexample:
  "parseReturnTo ''https://**.a..b/**'' = Inr (True, ''a..b'', ''/'')
   \<and> Index ''a..b'' ''..'' = Some 1"
  by (simp add: parseReturnTo_def string_defs)

text \<open>
  Claim C3, as the parser has it: the domain suffix of every accepted pattern is empty or
  begins with a character other than the dot.  The parser checks nothing else of the
  labels.
\<close>

theorem domain_suffix_no_leading_dot:
  "parseReturnTo r = Inr (s, d, p) \<Longrightarrow> \<not> HasPrefix d ''.''"
  by (auto simp: parseReturnTo_def Let_def HasPrefix_def [of "[]"]
      split: if_splits prod.splits option.splits sum.splits)

theorem domain_suffix_no_leading_dot_witness:
  "\<not> HasPrefix ''example.com'' ''.''"
  by (rule domain_suffix_no_leading_dot [OF parse_example_com])

text \<open>
  Claim C10: the host \<^verbatim>\<open>**.\<close> with no label after the wildcard is accepted, and
  \<^verbatim>\<open>https://**./**\<close> gives the scope triple of \<^verbatim>\<open>https://<current>/**\<close>, with the empty
  domain suffix.
\<close>

theorem wildcard_without_label:
  "parseReturnTo ''https://**./**'' = Inr (True, [], ''/'')
   \<and> parseReturnTo ''https://**./**'' = parseReturnTo ''https://<current>/**''"
  by (simp add: parseReturnTo_def string_defs)

section \<open>Expiration\<close>

text \<open>
  Claim C7: when both \<^verbatim>\<open>Expires.At\<close> and a non-zero \<^verbatim>\<open>Expires.After\<close> are set,
  \<^verbatim>\<open>Compile\<close> returns the error of the exclusivity check, whatever the other fields are,
  also when \<^verbatim>\<open>ReturnTo\<close> does not parse.
\<close>

theorem conflicting_expiration:
  "After (Expires i) \<noteq> 0 \<Longrightarrow> \<not> IsZero (At (Expires i)) \<Longrightarrow>
   Compile V i = Inl MutuallyExclusive"
  by (simp add: Compile_def)

theorem conflicting_expiration_witness:
  "parseReturnTo ''http://**.example.com/**'' = Inl (BadSchema ''http://**.example.com/**'')
   \<and> Compile (\<lambda>c. None)
       \<lparr>Name = ''test'', Value = ''value'',
        Expires = \<lparr>Session = False, At = \<lparr>sec = 63713433600, nsec = 0\<rparr>,
                   After = 24 * Hour\<rparr>,
        ReturnTo = ''http://**.example.com/**'', ReturnOnNavigationFrom = [],
        RevealToJavaScript = False\<rparr>
     = Inl MutuallyExclusive"
  using conflicting_expiration [of
       "\<lparr>Name = ''test'', Value = ''value'',
        Expires = \<lparr>Session = False, At = \<lparr>sec = 63713433600, nsec = 0\<rparr>,
                   After = 24 * Hour\<rparr>,
        ReturnTo = ''http://**.example.com/**'', ReturnOnNavigationFrom = [],
        RevealToJavaScript = False\<rparr>" "\<lambda>c. None"]
  by (simp add: parse_http hours_nonzero IsZero_def)

text \<open>
  Claim C2 as worded (a relative duration of exactly zero, with no timestamp and no session
  flag, compiles with a max-age of zero) fails: \<^verbatim>\<open>After(0)\<close> with every other field at its
  default is refused for its missing expiration.
\<close>

theorem zero_duration_counterexample:
  "Compile (\<lambda>c. None)
     \<lparr>Name = ''test'', Value = ''value'', Expires = After_Expiration 0, ReturnTo = [],
      ReturnOnNavigationFrom = [], RevealToJavaScript = False\<rparr>
   = Inl NoExpiration"
  by (simp add: Compile_def parse_empty resolveExpires_def After_Expiration_def IsZero_def
      zeroTime_def)

text \<open>
  Claim C2, as the code has it: a relative duration of zero is a duration that is not set.
  With no timestamp and no session flag either, \<^verbatim>\<open>Compile\<close> fails: with the error of the
  scope parser when \<^verbatim>\<open>ReturnTo\<close> does not parse, and otherwise with the error of the missing
  expiration.
\<close>

theorem zero_duration_is_unset:
  assumes "After (Expires i) = 0" and "IsZero (At (Expires i))" and "\<not> Session (Expires i)"
  shows "(\<exists>e. Compile V i = Inl e)
       \<and> (\<forall>err. parseReturnTo (ReturnTo i) = Inl err \<longrightarrow> Compile V i = Inl err)
       \<and> (\<forall>secure domain path. parseReturnTo (ReturnTo i) = Inr (secure, domain, path)
            \<longrightarrow> Compile V i = Inl NoExpiration)"
proof -
  have none: "resolveExpires (Expires i) = None"
    using assms by (simp add: resolveExpires_def)
  have a: "Compile V i = Inl err" if "parseReturnTo (ReturnTo i) = Inl err" for err
    using that assms(1) by (simp add: Compile_scope_error)
  have b: "Compile V i = Inl NoExpiration" if "parseReturnTo (ReturnTo i) = Inr t" for t
    using that assms(1) none by (simp add: Compile_no_expiration)
  from a b show ?thesis
    by (cases "parseReturnTo (ReturnTo i)") auto
qed

theorem zero_duration_is_unset_witness:
  "Compile (\<lambda>c. None)
     \<lparr>Name = ''test'', Value = ''value'',
      Expires = \<lparr>Session = False, At = zeroTime, After = 0\<rparr>,
      ReturnTo = ''https://<current>/**'', ReturnOnNavigationFrom = [],
      RevealToJavaScript = False\<rparr>
   = Inl NoExpiration"
  using zero_duration_is_unset [of
     "\<lparr>Name = ''test'', Value = ''value'',
      Expires = \<lparr>Session = False, At = zeroTime, After = 0\<rparr>,
      ReturnTo = ''https://<current>/**'', ReturnOnNavigationFrom = [],
      RevealToJavaScript = False\<rparr>" "\<lambda>c. None"]
  by (auto simp add: parse_current_root IsZero_def zeroTime_def)

text \<open>
  Claim C9: a cookie that \<^verbatim>\<open>Compile\<close> returns never has both \<^verbatim>\<open>Expires\<close> (a time that is
  not the zero time) and \<^verbatim>\<open>MaxAge\<close> (a number other than \<open>0\<close>) set.
\<close>

theorem expiry_fields_exclusive:
  "Compile V i = Inr c \<Longrightarrow> \<not> (\<not> IsZero (Cookie_Expires c) \<and> Cookie_MaxAge c \<noteq> 0)"
  by (auto simp: resolveExpires_def IsZero_def zeroTime_def split: if_splits
      dest!: Compile_result)

theorem expiry_fields_exclusive_witness:
  "\<not> (\<not> IsZero (Cookie_Expires
          \<lparr>Cookie_Name = ''test'', Cookie_Value = ''value'', Cookie_Domain = [],
           Cookie_Path = ''/'', Cookie_Expires = \<lparr>sec = 63713433600, nsec = 0\<rparr>,
           Cookie_MaxAge = 0, Cookie_Secure = True, Cookie_HttpOnly = True,
           Cookie_SameSite = SameSiteLaxMode\<rparr>)
      \<and> Cookie_MaxAge
          \<lparr>Cookie_Name = ''test'', Cookie_Value = ''value'', Cookie_Domain = [],
           Cookie_Path = ''/'', Cookie_Expires = \<lparr>sec = 63713433600, nsec = 0\<rparr>,
           Cookie_MaxAge = 0, Cookie_Secure = True, Cookie_HttpOnly = True,
           Cookie_SameSite = SameSiteLaxMode\<rparr> \<noteq> 0)"
  by (rule expiry_fields_exclusive [OF Compile_at_cookie])

text \<open>
  Claim C8 as worded (every intent with a negative relative duration and no timestamp
  compiles, with the duration truncated to whole seconds as its max-age) fails twice.
  \<^verbatim>\<open>Immediately()\<close> with a \<^verbatim>\<open>ReturnTo\<close> of schema \<^verbatim>\<open>http\<close> is refused by the scope parser.
  And for \<open>-16777216.999999999\<close> seconds the sum \<^verbatim>\<open>float64(sec) + float64(nsec)/1e9\<close>
  of \<^verbatim>\<open>Duration.Seconds\<close> is rounded to \<open>-16777217\<close>, one second beyond the
  truncation \<open>-16777216\<close>.
\<close>

theorem negative_duration_counterexample:
  "sint (After Immediately) < 0 \<and> IsZero (At Immediately)
   \<and> Compile (\<lambda>c. None)
        \<lparr>Name = ''expired-cookie'', Value = ''value'', Expires = Immediately,
         ReturnTo = ''http://**.example.com/**'', ReturnOnNavigationFrom = [],
         RevealToJavaScript = False\<rparr>
      = Inl (BadSchema ''http://**.example.com/**'')
   \<and> float64_to_int (Seconds (- 16777216999999999)) = - 16777217
   \<and> sint (- 16777216999999999 :: Duration) sdiv 1000000000 = - 16777216"
proof -
  have "sint (After Immediately) < 0" and "IsZero (At Immediately)"
    by (simp_all add: Immediately_def Second_def IsZero_def zeroTime_def)
  moreover have "Compile (\<lambda>c. None)
        \<lparr>Name = ''expired-cookie'', Value = ''value'', Expires = Immediately,
         ReturnTo = ''http://**.example.com/**'', ReturnOnNavigationFrom = [],
         RevealToJavaScript = False\<rparr>
      = Inl (BadSchema ''http://**.example.com/**'')"
    by (simp add: Compile_def parse_http Immediately_def IsZero_def zeroTime_def)
  moreover have "float64_to_int (Seconds (- 16777216999999999)) = - 16777217"
    by code_simp
  moreover have "sint (- 16777216999999999 :: Duration) sdiv 1000000000 = - 16777216"
    by (simp add: signed_divide_int_def)
  ultimately show ?thesis by simp
qed

text \<open>
  Claim C8, as the code has it: for an intent with a negative relative duration and no
  timestamp (whatever the session flag), \<^verbatim>\<open>Compile\<close> never returns the error of the missing
  or of the conflicting expiration; every cookie it returns has the max-age
  \<^verbatim>\<open>int(d.Seconds())\<close>, which is at most \<open>0\<close>, and the zero time as \<^verbatim>\<open>Expires\<close>; it returns
  that cookie whenever the scope parses and the checks of the name prefix, of the source
  of navigation and of \<^verbatim>\<open>Valid\<close> pass; and for a duration above \<open>-2\<^sup>2\<^sup>4\<close> seconds the
  max-age is the duration truncated to whole seconds.
\<close>

theorem negative_duration_max_age:
  assumes "sint (After (Expires i)) < 0" and "IsZero (At (Expires i))"
  shows "Compile V i \<noteq> Inl NoExpiration \<and> Compile V i \<noteq> Inl MutuallyExclusive
       \<and> (\<forall>c. Compile V i = Inr c \<longrightarrow>
              Cookie_MaxAge c = float64_to_int (Seconds (After (Expires i)))
              \<and> Cookie_MaxAge c \<le> 0 \<and> IsZero (Cookie_Expires c))
       \<and> (parseReturnTo (ReturnTo i) = Inr (secure, domain, path)
            \<and> \<not> (HasPrefix (Name i) ''__Secure-'' \<and> \<not> secure)
            \<and> \<not> (HasPrefix (Name i) ''__Host-''
                  \<and> (\<not> secure \<or> domain \<noteq> [] \<or> path \<noteq> ''/''))
            \<and> resolveSameSite (ReturnOnNavigationFrom i) = Some sameSite
            \<and> \<not> (\<not> secure \<and> sameSite = SameSiteNoneMode)
            \<and> V \<lparr>Cookie_Name = Name i, Cookie_Value = Value i, Cookie_Domain = domain,
                  Cookie_Path = path, Cookie_Expires = zeroTime,
                  Cookie_MaxAge = float64_to_int (Seconds (After (Expires i))),
                  Cookie_Secure = secure, Cookie_HttpOnly = (\<not> RevealToJavaScript i),
                  Cookie_SameSite = sameSite\<rparr> = None
          \<longrightarrow> Compile V i =
                Inr \<lparr>Cookie_Name = Name i, Cookie_Value = Value i, Cookie_Domain = domain,
                     Cookie_Path = path, Cookie_Expires = zeroTime,
                     Cookie_MaxAge = float64_to_int (Seconds (After (Expires i))),
                     Cookie_Secure = secure, Cookie_HttpOnly = (\<not> RevealToJavaScript i),
                     Cookie_SameSite = sameSite\<rparr>)
       \<and> (- (2 ^ 24 * 1000000000) < sint (After (Expires i)) \<longrightarrow>
            float64_to_int (Seconds (After (Expires i)))
              = sint (After (Expires i)) sdiv 1000000000)"
  (is "?no1 \<and> ?no2 \<and> ?result \<and> ?success \<and> ?whole")
proof (intro conjI)
  note r = negative_resolves [OF assms]
  show ?no1
  proof
    assume "Compile V i = Inl NoExpiration"
    from Compile_error_kinds [OF this] r(1) show False
      by (auto dest: parse_error_kinds)
  qed
  show ?no2
  proof
    assume "Compile V i = Inl MutuallyExclusive"
    from Compile_error_kinds [OF this] assms(2) show False
      by (auto dest: parse_error_kinds)
  qed
  show ?result
    using r by (auto dest!: Compile_result simp: IsZero_def zeroTime_def)
  show ?success
    using r(1) assms(2) by (auto intro!: Compile_success)
  show ?whole
    using assms(1) by (auto intro!: whole_seconds)
qed

theorem negative_duration_max_age_witness:
  "Compile (\<lambda>c. None)
     \<lparr>Name = ''expired-cookie'', Value = ''value'', Expires = Immediately,
      ReturnTo = [], ReturnOnNavigationFrom = [], RevealToJavaScript = False\<rparr>
   = Inr \<lparr>Cookie_Name = ''expired-cookie'', Cookie_Value = ''value'', Cookie_Domain = [],
          Cookie_Path = ''/'', Cookie_Expires = zeroTime, Cookie_MaxAge = - 1,
          Cookie_Secure = True, Cookie_HttpOnly = True,
          Cookie_SameSite = SameSiteLaxMode\<rparr>"
proof -
  let ?i = "\<lparr>Name = ''expired-cookie'', Value = ''value'', Expires = Immediately,
      ReturnTo = [], ReturnOnNavigationFrom = [], RevealToJavaScript = False\<rparr>"
  have a: "sint (After (Expires ?i)) < 0" and b: "IsZero (At (Expires ?i))"
    by (simp_all add: Immediately_def Second_def IsZero_def zeroTime_def)
  have d: "sint (After (Expires ?i)) = - 1000000000"
    by (simp add: Immediately_def Second_def)
  have n: "\<not> HasPrefix ''expired-cookie'' ''__Secure-''"
    "\<not> HasPrefix ''expired-cookie'' ''__Host-''"
    by (simp_all add: HasPrefix_def)
  have m: "resolveSameSite [] = Some SameSiteLaxMode"
    by (simp add: resolveSameSite_def sources_distinct [symmetric])
  from negative_duration_max_age
    [OF a b, where V = "\<lambda>c. None" and secure = True and domain = "[]" and path = "''/''"
       and sameSite = SameSiteLaxMode]
  show ?thesis
    using n m d by (simp add: parse_empty signed_divide_int_def)
qed

section \<open>The default scope\<close>

text \<open>
  Claim C4: the empty \<^verbatim>\<open>ReturnTo\<close> parses to secure-only, the empty domain suffix and the
  path prefix \<^verbatim>\<open>/\<close>; and the intent named \<^verbatim>\<open>test\<close> with the value \<^verbatim>\<open>value\<close>, expiring
  after 24 hours, every other field at its default, compiles to the cookie with path
  \<^verbatim>\<open>/\<close>, no domain, \<^verbatim>\<open>Secure\<close>, \<^verbatim>\<open>HttpOnly\<close>, \<^verbatim>\<open>SameSite=Lax\<close>, a max-age of 86400 and the
  zero time as \<^verbatim>\<open>Expires\<close>, for every \<^verbatim>\<open>Valid\<close> that accepts this cookie.
\<close>

theorem basic_cookie_compiles:
  assumes "V \<lparr>Cookie_Name = ''test'', Cookie_Value = ''value'', Cookie_Domain = [],
              Cookie_Path = ''/'', Cookie_Expires = zeroTime, Cookie_MaxAge = 86400,
              Cookie_Secure = True, Cookie_HttpOnly = True,
              Cookie_SameSite = SameSiteLaxMode\<rparr> = None"
  shows "parseReturnTo [] = Inr (True, [], ''/'')
       \<and> Compile V
           \<lparr>Name = ''test'', Value = ''value'', Expires = After_Expiration (24 * Hour),
            ReturnTo = [], ReturnOnNavigationFrom = [], RevealToJavaScript = False\<rparr>
         = Inr \<lparr>Cookie_Name = ''test'', Cookie_Value = ''value'', Cookie_Domain = [],
                Cookie_Path = ''/'', Cookie_Expires = zeroTime, Cookie_MaxAge = 86400,
                Cookie_Secure = True, Cookie_HttpOnly = True,
                Cookie_SameSite = SameSiteLaxMode\<rparr>
       \<and> IsZero zeroTime"
  using assms
  by (simp add: Compile_def parse_empty resolveExpires_def After_Expiration_def IsZero_def
      zeroTime_def seconds_24h resolveSameSite_def SameSite_def HasPrefix_def hours_nonzero)

theorem basic_cookie_compiles_witness:
  "Compile (\<lambda>c. None)
      \<lparr>Name = ''test'', Value = ''value'', Expires = After_Expiration (24 * Hour),
       ReturnTo = [], ReturnOnNavigationFrom = [], RevealToJavaScript = False\<rparr>
    = Inr \<lparr>Cookie_Name = ''test'', Cookie_Value = ''value'', Cookie_Domain = [],
           Cookie_Path = ''/'', Cookie_Expires = zeroTime, Cookie_MaxAge = 86400,
           Cookie_Secure = True, Cookie_HttpOnly = True,
           Cookie_SameSite = SameSiteLaxMode\<rparr>"
  using basic_cookie_compiles [of "\<lambda>c. None"] by simp

section \<open>Name prefixes\<close>

text \<open>
  Claim C5 as worded (a \<^verbatim>\<open>__Host-\<close> name with any other scope than secure-only, no
  domain and the path \<^verbatim>\<open>/\<close> always fails with the error of the prefix constraint) fails:
  the expiration is resolved before the name is looked at, so with no expiration set the
  pattern \<^verbatim>\<open>https://**.example.com/**\<close> is refused for the missing expiration.
\<close>

theorem host_prefix_counterexample:
  "HasPrefix ''__Host-test'' ''__Host-''
   \<and> parseReturnTo ''https://**.example.com/**'' = Inr (True, ''example.com'', ''/'')
   \<and> Compile (\<lambda>c. None)
        \<lparr>Name = ''__Host-test'', Value = ''value'',
         Expires = \<lparr>Session = False, At = zeroTime, After = 0\<rparr>,
         ReturnTo = ''https://**.example.com/**'', ReturnOnNavigationFrom = [],
         RevealToJavaScript = False\<rparr>
      = Inl NoExpiration"
  by (simp add: Compile_def parse_example_com resolveExpires_def IsZero_def zeroTime_def
      HasPrefix_def)

text \<open>
  Claim C5, as the code has it: for a name that starts with \<^verbatim>\<open>__Host-\<close>, \<^verbatim>\<open>Compile\<close> fails
  whenever \<^verbatim>\<open>ReturnTo\<close> does not resolve to secure-only, the empty domain suffix and the
  path prefix \<^verbatim>\<open>/\<close>, and the error is that of the first check that fails, in the order of
  the code: the error of the conflicting expiration when both a timestamp and a duration
  are set; else the error of the scope parser when \<^verbatim>\<open>ReturnTo\<close> does not parse; else the
  error of the missing expiration when none of timestamp, duration and session flag is
  set; else the error of the \<^verbatim>\<open>__Host-\<close> constraint.  With the scope secure-only, no domain
  and the path \<^verbatim>\<open>/\<close>, the error of the \<^verbatim>\<open>__Host-\<close> constraint is never returned.  In
  particular the patterns \<^verbatim>\<open>https://**.example.com/**\<close> and \<^verbatim>\<open>https://<current>/foo/**\<close>
  always fail for such a name.
\<close>

theorem host_prefix_constraint:
  assumes "HasPrefix (Name i) ''__Host-''"
  shows "(parseReturnTo (ReturnTo i) \<noteq> Inr (True, [], ''/'') \<longrightarrow> (\<exists>e. Compile V i = Inl e))
       \<and> (After (Expires i) \<noteq> 0 \<and> \<not> IsZero (At (Expires i))
          \<longrightarrow> Compile V i = Inl MutuallyExclusive)
       \<and> ((After (Expires i) = 0 \<or> IsZero (At (Expires i)))
            \<and> parseReturnTo (ReturnTo i) = Inl err
          \<longrightarrow> Compile V i = Inl err)
       \<and> ((After (Expires i) = 0 \<or> IsZero (At (Expires i)))
            \<and> parseReturnTo (ReturnTo i) = Inr (secure, domain, path)
            \<and> resolveExpires (Expires i) = None
          \<longrightarrow> Compile V i = Inl NoExpiration)
       \<and> ((After (Expires i) = 0 \<or> IsZero (At (Expires i)))
            \<and> parseReturnTo (ReturnTo i) = Inr (secure, domain, path)
            \<and> resolveExpires (Expires i) \<noteq> None
            \<and> (\<not> secure \<or> domain \<noteq> [] \<or> path \<noteq> ''/'')
          \<longrightarrow> Compile V i = Inl HostPrefix)
       \<and> (parseReturnTo (ReturnTo i) = Inr (True, [], ''/'')
          \<longrightarrow> Compile V i \<noteq> Inl HostPrefix)
       \<and> (ReturnTo i = ''https://**.example.com/**'' \<or> ReturnTo i = ''https://<current>/foo/**''
          \<longrightarrow> (\<exists>e. Compile V i = Inl e))"
  (is "?fails \<and> ?conflict \<and> ?scope \<and> ?missing \<and> ?kind \<and> ?unless \<and> ?tests")
proof -
  have fails: "\<exists>e. Compile V i = Inl e" if "parseReturnTo (ReturnTo i) \<noteq> Inr (True, [], ''/'')"
  proof (cases "parseReturnTo (ReturnTo i)")
    case (Inl err)
    then show ?thesis by (rule Compile_fails_unparsed)
  next
    case (Inr t)
    obtain s d p where t: "t = (s, d, p)" by (cases t)
    with Inr that have "\<not> s \<or> d \<noteq> [] \<or> p \<noteq> ''/''" by auto
    with Inr t assms show ?thesis by (auto intro: Compile_host_fails)
  qed
  then have ?fails by blast
  moreover have ?conflict
    by (auto intro: Compile_mutually_exclusive)
  moreover have ?scope
    by (auto intro: Compile_scope_error)
  moreover have ?missing
    by (auto intro: Compile_no_expiration)
  moreover have ?kind
  proof (intro impI; elim conjE)
    assume "After (Expires i) = 0 \<or> IsZero (At (Expires i))"
      and "parseReturnTo (ReturnTo i) = Inr (secure, domain, path)"
      and "\<not> secure \<or> domain \<noteq> [] \<or> path \<noteq> ''/''"
      and "resolveExpires (Expires i) \<noteq> None"
    moreover from this(4) obtain tm where "resolveExpires (Expires i) = Some tm" by auto
    ultimately show "Compile V i = Inl HostPrefix"
      using assms Compile_host_prefix [of i secure domain path tm V] by blast
  qed
  moreover have ?unless
    by (auto dest: Compile_not_host_prefix)
  moreover have ?tests
    by (auto intro!: fails simp: parse_example_com parse_current_foo)
  ultimately show ?thesis by (intro conjI)
qed

theorem host_prefix_constraint_witness:
  "Compile (\<lambda>c. None)
     \<lparr>Name = ''__Host-test'', Value = ''value'', Expires = After_Expiration (24 * Hour),
      ReturnTo = ''https://<current>/foo/**'', ReturnOnNavigationFrom = [],
      RevealToJavaScript = False\<rparr>
   = Inl HostPrefix
   \<and> Compile (\<lambda>c. None)
       \<lparr>Name = ''__Host-test'', Value = ''value'',
        Expires = \<lparr>Session = False, At = zeroTime, After = 0\<rparr>,
        ReturnTo = ''https://**.example.com/**'', ReturnOnNavigationFrom = [],
        RevealToJavaScript = False\<rparr>
     = Inl NoExpiration"
proof -
  let ?i = "\<lparr>Name = ''__Host-test'', Value = ''value'', Expires = After_Expiration (24 * Hour),
      ReturnTo = ''https://<current>/foo/**'', ReturnOnNavigationFrom = [],
      RevealToJavaScript = False\<rparr>"
  let ?j = "\<lparr>Name = ''__Host-test'', Value = ''value'',
      Expires = \<lparr>Session = False, At = zeroTime, After = 0\<rparr>,
      ReturnTo = ''https://**.example.com/**'', ReturnOnNavigationFrom = [],
      RevealToJavaScript = False\<rparr>"
  have name: "HasPrefix (Name ?i) ''__Host-''" "HasPrefix (Name ?j) ''__Host-''"
    by (simp_all add: HasPrefix_def)
  have "resolveExpires (Expires ?i) \<noteq> None"
    by (simp add: resolveExpires_def After_Expiration_def IsZero_def zeroTime_def hours_nonzero)
  moreover have "IsZero (At (Expires ?i))"
    by (simp add: After_Expiration_def IsZero_def zeroTime_def)
  moreover have "parseReturnTo (ReturnTo ?i) = Inr (True, [], ''foo/'')"
    by (simp add: parse_current_foo)
  ultimately have "Compile (\<lambda>c. None) ?i = Inl HostPrefix"
    using host_prefix_constraint
      [OF name(1), where secure = True and domain = "[]" and path = "''foo/''"
         and V = "\<lambda>c. None"]
    by simp
  moreover have "resolveExpires (Expires ?j) = None" and "IsZero (At (Expires ?j))"
    by (simp_all add: resolveExpires_def IsZero_def zeroTime_def)
  then have "Compile (\<lambda>c. None) ?j = Inl NoExpiration"
    using host_prefix_constraint
      [OF name(2), where secure = True and domain = "''example.com''" and path = "''/''"
         and V = "\<lambda>c. None"]
    by (simp add: parse_example_com)
  ultimately show ?thesis by (rule conjI)
qed

section \<open>The source of navigation\<close>

text \<open>
  Claim C6 as worded (the policy \<^verbatim>\<open>AnySite\<close> with a scope that is not secure-only always
  fails with the error of the insecure \<^verbatim>\<open>SameSite=None\<close>) fails: the name prefixes are
  checked before the policy is, so a name that starts with \<^verbatim>\<open>__Secure-\<close> fails with the
  error of its prefix.
\<close>

theorem any_site_counterexample:
  "parseReturnTo ''https?://<current>/**'' = Inr (False, [], ''/'')
   \<and> Compile (\<lambda>c. None)
        \<lparr>Name = ''__Secure-test'', Value = ''value'', Expires = After_Expiration (24 * Hour),
         ReturnTo = ''https?://<current>/**'', ReturnOnNavigationFrom = AnySite,
         RevealToJavaScript = False\<rparr>
      = Inl SecurePrefix"
  by (simp add: Compile_def parse_insecure_root resolveExpires_def After_Expiration_def
      IsZero_def zeroTime_def hours_nonzero HasPrefix_def)

text \<open>
  Claim C6, as the code has it.  With the policy \<^verbatim>\<open>AnySite\<close> and a scope that is not
  secure-only, \<^verbatim>\<open>Compile\<close> fails with the error of the first check that fails, in the order
  of the code: conflicting expiration, missing expiration, the \<^verbatim>\<open>__Secure-\<close> prefix, the
  \<^verbatim>\<open>__Host-\<close> prefix, and only then the insecure \<^verbatim>\<open>SameSite=None\<close>.  With one of the four
  known policies, \<^verbatim>\<open>Compile\<close> returns the cookie whose \<^verbatim>\<open>SameSite\<close> is \<^verbatim>\<open>Strict\<close> for
  \<^verbatim>\<open>SameSite\<close>, \<^verbatim>\<open>None\<close> for \<^verbatim>\<open>AnySite\<close>, and \<^verbatim>\<open>Lax\<close> for \<^verbatim>\<open>SameSiteOrAnySiteByUser\<close> and
  for the empty policy, whenever every other check passes, \<^verbatim>\<open>AnySite\<close> needing a
  secure-only scope.  With any other policy \<^verbatim>\<open>Compile\<close> fails, again with the error of the
  first check that fails: conflicting expiration, the scope parser, missing expiration,
  the \<^verbatim>\<open>__Secure-\<close> prefix, the \<^verbatim>\<open>__Host-\<close> prefix, and only then the unsupported policy.
\<close>

theorem navigation_source_mapping:
  "(ReturnOnNavigationFrom i = AnySite
      \<and> parseReturnTo (ReturnTo i) = Inr (False, domain, path)
    \<longrightarrow> (\<exists>e. Compile V i = Inl e)
       \<and> (After (Expires i) \<noteq> 0 \<and> \<not> IsZero (At (Expires i))
          \<longrightarrow> Compile V i = Inl MutuallyExclusive)
       \<and> ((After (Expires i) = 0 \<or> IsZero (At (Expires i)))
            \<and> resolveExpires (Expires i) = None
          \<longrightarrow> Compile V i = Inl NoExpiration)
       \<and> ((After (Expires i) = 0 \<or> IsZero (At (Expires i)))
            \<and> resolveExpires (Expires i) \<noteq> None
            \<and> HasPrefix (Name i) ''__Secure-''
          \<longrightarrow> Compile V i = Inl SecurePrefix)
       \<and> ((After (Expires i) = 0 \<or> IsZero (At (Expires i)))
            \<and> resolveExpires (Expires i) \<noteq> None
            \<and> HasPrefix (Name i) ''__Host-''
          \<longrightarrow> Compile V i = Inl HostPrefix)
       \<and> ((After (Expires i) = 0 \<or> IsZero (At (Expires i)))
            \<and> resolveExpires (Expires i) \<noteq> None
            \<and> \<not> HasPrefix (Name i) ''__Secure-'' \<and> \<not> HasPrefix (Name i) ''__Host-''
          \<longrightarrow> Compile V i = Inl NoneNotSecure))
   \<and> (ReturnOnNavigationFrom i \<in> {SameSite, SameSiteOrAnySiteByUser, [], AnySite}
      \<and> (After (Expires i) = 0 \<or> IsZero (At (Expires i)))
      \<and> parseReturnTo (ReturnTo i) = Inr (secure, domain, path)
      \<and> resolveExpires (Expires i) = Some (expires, maxAge)
      \<and> \<not> (HasPrefix (Name i) ''__Secure-'' \<and> \<not> secure)
      \<and> \<not> (HasPrefix (Name i) ''__Host-'' \<and> (\<not> secure \<or> domain \<noteq> [] \<or> path \<noteq> ''/''))
      \<and> (secure \<or> ReturnOnNavigationFrom i \<noteq> AnySite)
      \<and> V \<lparr>Cookie_Name = Name i, Cookie_Value = Value i, Cookie_Domain = domain,
            Cookie_Path = path, Cookie_Expires = expires, Cookie_MaxAge = maxAge,
            Cookie_Secure = secure, Cookie_HttpOnly = (\<not> RevealToJavaScript i),
            Cookie_SameSite =
              (if ReturnOnNavigationFrom i = SameSite then SameSiteStrictMode
               else if ReturnOnNavigationFrom i = AnySite then SameSiteNoneMode
               else SameSiteLaxMode)\<rparr> = None
    \<longrightarrow> Compile V i =
          Inr \<lparr>Cookie_Name = Name i, Cookie_Value = Value i, Cookie_Domain = domain,
               Cookie_Path = path, Cookie_Expires = expires, Cookie_MaxAge = maxAge,
               Cookie_Secure = secure, Cookie_HttpOnly = (\<not> RevealToJavaScript i),
               Cookie_SameSite =
                 (if ReturnOnNavigationFrom i = SameSite then SameSiteStrictMode
                  else if ReturnOnNavigationFrom i = AnySite then SameSiteNoneMode
                  else SameSiteLaxMode)\<rparr>)
   \<and> (ReturnOnNavigationFrom i \<notin> {SameSite, SameSiteOrAnySiteByUser, [], AnySite}
    \<longrightarrow> (\<exists>e. Compile V i = Inl e)
       \<and> (After (Expires i) \<noteq> 0 \<and> \<not> IsZero (At (Expires i))
          \<longrightarrow> Compile V i = Inl MutuallyExclusive)
       \<and> ((After (Expires i) = 0 \<or> IsZero (At (Expires i)))
            \<and> parseReturnTo (ReturnTo i) = Inl err
          \<longrightarrow> Compile V i = Inl err)
       \<and> ((After (Expires i) = 0 \<or> IsZero (At (Expires i)))
            \<and> parseReturnTo (ReturnTo i) = Inr (secure, domain, path)
            \<and> resolveExpires (Expires i) = None
          \<longrightarrow> Compile V i = Inl NoExpiration)
       \<and> ((After (Expires i) = 0 \<or> IsZero (At (Expires i)))
            \<and> parseReturnTo (ReturnTo i) = Inr (secure, domain, path)
            \<and> resolveExpires (Expires i) \<noteq> None
            \<and> HasPrefix (Name i) ''__Secure-'' \<and> \<not> secure
          \<longrightarrow> Compile V i = Inl SecurePrefix)
       \<and> ((After (Expires i) = 0 \<or> IsZero (At (Expires i)))
            \<and> parseReturnTo (ReturnTo i) = Inr (secure, domain, path)
            \<and> resolveExpires (Expires i) \<noteq> None
            \<and> \<not> (HasPrefix (Name i) ''__Secure-'' \<and> \<not> secure)
            \<and> HasPrefix (Name i) ''__Host-''
            \<and> (\<not> secure \<or> domain \<noteq> [] \<or> path \<noteq> ''/'')
          \<longrightarrow> Compile V i = Inl HostPrefix)
       \<and> ((After (Expires i) = 0 \<or> IsZero (At (Expires i)))
            \<and> parseReturnTo (ReturnTo i) = Inr (secure, domain, path)
            \<and> resolveExpires (Expires i) \<noteq> None
            \<and> \<not> (HasPrefix (Name i) ''__Secure-'' \<and> \<not> secure)
            \<and> \<not> (HasPrefix (Name i) ''__Host-''
                  \<and> (\<not> secure \<or> domain \<noteq> [] \<or> path \<noteq> ''/''))
          \<longrightarrow> Compile V i = Inl (UnsupportedSource (ReturnOnNavigationFrom i))))"
  (is "?insecure \<and> ?mapped \<and> ?unknown")
proof (intro conjI)
  show ?insecure
  proof (intro impI, elim conjE)
    assume src: "ReturnOnNavigationFrom i = AnySite"
      and scope: "parseReturnTo (ReturnTo i) = Inr (False, domain, path)"
    have none: "resolveSameSite (ReturnOnNavigationFrom i) = Some SameSiteNoneMode"
      by (simp add: src resolveSameSite_cases)
    have a: "\<exists>e. Compile V i = Inl e"
      using scope none by (rule Compile_insecure_none_fails)
    have b: "Compile V i = Inl MutuallyExclusive"
      if "After (Expires i) \<noteq> 0 \<and> \<not> IsZero (At (Expires i))"
      using that by (auto intro: Compile_mutually_exclusive)
    have c: "Compile V i = Inl NoExpiration"
      if "(After (Expires i) = 0 \<or> IsZero (At (Expires i)))
          \<and> resolveExpires (Expires i) = None"
      using that scope by (auto intro: Compile_no_expiration)
    have d: "Compile V i = Inl SecurePrefix"
      if "(After (Expires i) = 0 \<or> IsZero (At (Expires i)))
          \<and> resolveExpires (Expires i) \<noteq> None \<and> HasPrefix (Name i) ''__Secure-''"
      using that scope by (auto intro: Compile_secure_prefix)
    have e: "Compile V i = Inl HostPrefix"
      if "(After (Expires i) = 0 \<or> IsZero (At (Expires i)))
          \<and> resolveExpires (Expires i) \<noteq> None \<and> HasPrefix (Name i) ''__Host-''"
      using that scope by (auto intro: Compile_host_prefix)
    have f: "Compile V i = Inl NoneNotSecure"
      if "(After (Expires i) = 0 \<or> IsZero (At (Expires i)))
          \<and> resolveExpires (Expires i) \<noteq> None
          \<and> \<not> HasPrefix (Name i) ''__Secure-'' \<and> \<not> HasPrefix (Name i) ''__Host-''"
      using that scope none by (auto intro: Compile_none_not_secure)
    from a b c d e f
    show "(\<exists>e. Compile V i = Inl e)
       \<and> (After (Expires i) \<noteq> 0 \<and> \<not> IsZero (At (Expires i))
          \<longrightarrow> Compile V i = Inl MutuallyExclusive)
       \<and> ((After (Expires i) = 0 \<or> IsZero (At (Expires i)))
            \<and> resolveExpires (Expires i) = None
          \<longrightarrow> Compile V i = Inl NoExpiration)
       \<and> ((After (Expires i) = 0 \<or> IsZero (At (Expires i)))
            \<and> resolveExpires (Expires i) \<noteq> None
            \<and> HasPrefix (Name i) ''__Secure-''
          \<longrightarrow> Compile V i = Inl SecurePrefix)
       \<and> ((After (Expires i) = 0 \<or> IsZero (At (Expires i)))
            \<and> resolveExpires (Expires i) \<noteq> None
            \<and> HasPrefix (Name i) ''__Host-''
          \<longrightarrow> Compile V i = Inl HostPrefix)
       \<and> ((After (Expires i) = 0 \<or> IsZero (At (Expires i)))
            \<and> resolveExpires (Expires i) \<noteq> None
            \<and> \<not> HasPrefix (Name i) ''__Secure-'' \<and> \<not> HasPrefix (Name i) ''__Host-''
          \<longrightarrow> Compile V i = Inl NoneNotSecure)"
      by (intro conjI impI)
  qed
  show ?mapped
  proof (intro impI; elim conjE)
    let ?m = "if ReturnOnNavigationFrom i = SameSite then SameSiteStrictMode
              else if ReturnOnNavigationFrom i = AnySite then SameSiteNoneMode
              else SameSiteLaxMode"
    assume "ReturnOnNavigationFrom i \<in> {SameSite, SameSiteOrAnySiteByUser, [], AnySite}"
    then have m: "resolveSameSite (ReturnOnNavigationFrom i) = Some ?m"
      by (rule resolveSameSite_known)
    assume "secure \<or> ReturnOnNavigationFrom i \<noteq> AnySite"
    then have ok: "\<not> (\<not> secure \<and> ?m = SameSiteNoneMode)"
      by (auto simp: sources_distinct)
    assume "After (Expires i) = 0 \<or> IsZero (At (Expires i))"
      and "parseReturnTo (ReturnTo i) = Inr (secure, domain, path)"
      and "resolveExpires (Expires i) = Some (expires, maxAge)"
      and "\<not> (HasPrefix (Name i) ''__Secure-'' \<and> \<not> secure)"
      and "\<not> (HasPrefix (Name i) ''__Host-'' \<and> (\<not> secure \<or> domain \<noteq> [] \<or> path \<noteq> ''/''))"
      and "V \<lparr>Cookie_Name = Name i, Cookie_Value = Value i, Cookie_Domain = domain,
            Cookie_Path = path, Cookie_Expires = expires, Cookie_MaxAge = maxAge,
            Cookie_Secure = secure, Cookie_HttpOnly = (\<not> RevealToJavaScript i),
            Cookie_SameSite = ?m\<rparr> = None"
    then show "Compile V i =
          Inr \<lparr>Cookie_Name = Name i, Cookie_Value = Value i, Cookie_Domain = domain,
               Cookie_Path = path, Cookie_Expires = expires, Cookie_MaxAge = maxAge,
               Cookie_Secure = secure, Cookie_HttpOnly = (\<not> RevealToJavaScript i),
               Cookie_SameSite = ?m\<rparr>"
      using m ok by (intro Compile_success)
  qed
  show ?unknown
  proof (intro impI)
    assume "ReturnOnNavigationFrom i \<notin> {SameSite, SameSiteOrAnySiteByUser, [], AnySite}"
    then have none: "resolveSameSite (ReturnOnNavigationFrom i) = None"
      by (rule resolveSameSite_cases)
    have a: "\<exists>e. Compile V i = Inl e"
      using none by (rule Compile_unsupported_fails)
    have b: "Compile V i = Inl MutuallyExclusive"
      if "After (Expires i) \<noteq> 0 \<and> \<not> IsZero (At (Expires i))"
      using that by (auto intro: Compile_mutually_exclusive)
    have c: "Compile V i = Inl err"
      if "(After (Expires i) = 0 \<or> IsZero (At (Expires i)))
          \<and> parseReturnTo (ReturnTo i) = Inl err"
      using that by (auto intro: Compile_scope_error)
    have d: "Compile V i = Inl NoExpiration"
      if "(After (Expires i) = 0 \<or> IsZero (At (Expires i)))
          \<and> parseReturnTo (ReturnTo i) = Inr (secure, domain, path)
          \<and> resolveExpires (Expires i) = None"
      using that by (auto intro: Compile_no_expiration)
    have e: "Compile V i = Inl SecurePrefix"
      if "(After (Expires i) = 0 \<or> IsZero (At (Expires i)))
          \<and> parseReturnTo (ReturnTo i) = Inr (secure, domain, path)
          \<and> resolveExpires (Expires i) \<noteq> None
          \<and> HasPrefix (Name i) ''__Secure-'' \<and> \<not> secure"
      using that by (auto intro: Compile_secure_prefix)
    have f: "Compile V i = Inl HostPrefix"
      if "(After (Expires i) = 0 \<or> IsZero (At (Expires i)))
          \<and> parseReturnTo (ReturnTo i) = Inr (secure, domain, path)
          \<and> resolveExpires (Expires i) \<noteq> None
          \<and> \<not> (HasPrefix (Name i) ''__Secure-'' \<and> \<not> secure)
          \<and> HasPrefix (Name i) ''__Host-''
          \<and> (\<not> secure \<or> domain \<noteq> [] \<or> path \<noteq> ''/'')"
      using that by (auto intro: Compile_host_prefix)
    have g: "Compile V i = Inl (UnsupportedSource (ReturnOnNavigationFrom i))"
      if "(After (Expires i) = 0 \<or> IsZero (At (Expires i)))
          \<and> parseReturnTo (ReturnTo i) = Inr (secure, domain, path)
          \<and> resolveExpires (Expires i) \<noteq> None
          \<and> \<not> (HasPrefix (Name i) ''__Secure-'' \<and> \<not> secure)
          \<and> \<not> (HasPrefix (Name i) ''__Host-''
                \<and> (\<not> secure \<or> domain \<noteq> [] \<or> path \<noteq> ''/''))"
      using that none by (auto intro: Compile_unsupported)
    from a b c d e f g
    show "(\<exists>e. Compile V i = Inl e)
       \<and> (After (Expires i) \<noteq> 0 \<and> \<not> IsZero (At (Expires i))
          \<longrightarrow> Compile V i = Inl MutuallyExclusive)
       \<and> ((After (Expires i) = 0 \<or> IsZero (At (Expires i)))
            \<and> parseReturnTo (ReturnTo i) = Inl err
          \<longrightarrow> Compile V i = Inl err)
       \<and> ((After (Expires i) = 0 \<or> IsZero (At (Expires i)))
            \<and> parseReturnTo (ReturnTo i) = Inr (secure, domain, path)
            \<and> resolveExpires (Expires i) = None
          \<longrightarrow> Compile V i = Inl NoExpiration)
       \<and> ((After (Expires i) = 0 \<or> IsZero (At (Expires i)))
            \<and> parseReturnTo (ReturnTo i) = Inr (secure, domain, path)
            \<and> resolveExpires (Expires i) \<noteq> None
            \<and> HasPrefix (Name i) ''__Secure-'' \<and> \<not> secure
          \<longrightarrow> Compile V i = Inl SecurePrefix)
       \<and> ((After (Expires i) = 0 \<or> IsZero (At (Expires i)))
            \<and> parseReturnTo (ReturnTo i) = Inr (secure, domain, path)
            \<and> resolveExpires (Expires i) \<noteq> None
            \<and> \<not> (HasPrefix (Name i) ''__Secure-'' \<and> \<not> secure)
            \<and> HasPrefix (Name i) ''__Host-''
            \<and> (\<not> secure \<or> domain \<noteq> [] \<or> path \<noteq> ''/'')
          \<longrightarrow> Compile V i = Inl HostPrefix)
       \<and> ((After (Expires i) = 0 \<or> IsZero (At (Expires i)))
            \<and> parseReturnTo (ReturnTo i) = Inr (secure, domain, path)
            \<and> resolveExpires (Expires i) \<noteq> None
            \<and> \<not> (HasPrefix (Name i) ''__Secure-'' \<and> \<not> secure)
            \<and> \<not> (HasPrefix (Name i) ''__Host-''
                  \<and> (\<not> secure \<or> domain \<noteq> [] \<or> path \<noteq> ''/''))
          \<longrightarrow> Compile V i = Inl (UnsupportedSource (ReturnOnNavigationFrom i)))"
      by (intro conjI impI)
  qed
qed

theorem navigation_source_mapping_witness:
  "Compile (\<lambda>c. None)
     \<lparr>Name = ''test'', Value = ''value'', Expires = After_Expiration (24 * Hour),
      ReturnTo = ''https?://<current>/**'', ReturnOnNavigationFrom = AnySite,
      RevealToJavaScript = False\<rparr>
   = Inl NoneNotSecure
   \<and> Compile (\<lambda>c. None)
       \<lparr>Name = ''__Secure-test'', Value = ''value'', Expires = After_Expiration (24 * Hour),
        ReturnTo = ''https?://<current>/**'', ReturnOnNavigationFrom = AnySite,
        RevealToJavaScript = False\<rparr>
     = Inl SecurePrefix
   \<and> Compile (\<lambda>c. None)
       \<lparr>Name = ''test'', Value = ''value'', Expires = After_Expiration (24 * Hour),
        ReturnTo = [], ReturnOnNavigationFrom = AnySite, RevealToJavaScript = False\<rparr>
     = Inr \<lparr>Cookie_Name = ''test'', Cookie_Value = ''value'', Cookie_Domain = [],
            Cookie_Path = ''/'', Cookie_Expires = zeroTime, Cookie_MaxAge = 86400,
            Cookie_Secure = True, Cookie_HttpOnly = True,
            Cookie_SameSite = SameSiteNoneMode\<rparr>"
proof -
  let ?e = "After_Expiration (24 * Hour)"
  let ?i = "\<lparr>Name = ''test'', Value = ''value'', Expires = ?e,
      ReturnTo = ''https?://<current>/**'', ReturnOnNavigationFrom = AnySite,
      RevealToJavaScript = False\<rparr>"
  let ?k = "\<lparr>Name = ''__Secure-test'', Value = ''value'', Expires = ?e,
      ReturnTo = ''https?://<current>/**'', ReturnOnNavigationFrom = AnySite,
      RevealToJavaScript = False\<rparr>"
  let ?j = "\<lparr>Name = ''test'', Value = ''value'', Expires = ?e,
      ReturnTo = [], ReturnOnNavigationFrom = AnySite, RevealToJavaScript = False\<rparr>"
  have e: "resolveExpires ?e = Some (zeroTime, 86400)" "IsZero (At ?e)"
    by (simp_all add: resolveExpires_def After_Expiration_def IsZero_def zeroTime_def
        hours_nonzero seconds_24h)
  have n: "\<not> HasPrefix ''test'' ''__Secure-''" "\<not> HasPrefix ''test'' ''__Host-''"
    "HasPrefix ''__Secure-test'' ''__Secure-''"
    by (simp_all add: HasPrefix_def)
  have "Compile (\<lambda>c. None) ?i = Inl NoneNotSecure"
    using navigation_source_mapping
      [where i = ?i and V = "\<lambda>c. None" and domain = "[]" and path = "''/''"]
      e n
    by (simp add: parse_insecure_root)
  moreover have "Compile (\<lambda>c. None) ?k = Inl SecurePrefix"
    using navigation_source_mapping
      [where i = ?k and V = "\<lambda>c. None" and domain = "[]" and path = "''/''"]
      e n
    by (simp add: parse_insecure_root)
  moreover have "Compile (\<lambda>c. None) ?j =
     Inr \<lparr>Cookie_Name = ''test'', Cookie_Value = ''value'', Cookie_Domain = [],
            Cookie_Path = ''/'', Cookie_Expires = zeroTime, Cookie_MaxAge = 86400,
            Cookie_Secure = True, Cookie_HttpOnly = True,
            Cookie_SameSite = SameSiteNoneMode\<rparr>"
    using navigation_source_mapping
      [where i = ?j and V = "\<lambda>c. None" and domain = "[]" and path = "''/''"
         and secure = True and expires = zeroTime and maxAge = 86400]
      e n
    by (simp add: parse_empty sources_distinct sources_distinct [symmetric])
  ultimately show ?thesis by (intro conjI)
qed

end
